theory Spec2Isabelle
  imports Main "HOL-Library.Product_Lexorder"
begin

section \<open>The to-do list entity of sb\_todo (entity.py)\<close>

text \<open>
  Modelling conventions.
  \<^item> A Python exception is a value of \<open>py_error\<close>. An operation that mutates the
    entity before it raises returns the error together with the entity as the raise
    left it.
  \<^item> \<open>due_datetime\<close> is a numeric epoch timestamp, taken here in whole seconds
    (\<open>int\<close>); floating point rounding and sub-second parts are not modelled.
  \<^item> A naive local \<open>datetime\<close> is the number of seconds since
    1970-01-01T00:00:00 on the local wall clock. The local time zone is a fixed offset
    \<open>tz\<close> (seconds east of UTC); daylight-saving transitions are not modelled.
  \<^item> Characters are bytes; \<open>\d\<close> is taken on the ASCII digits.
  \<^item> File writes and host calls (\<open>async_write_ha_state\<close>) succeed; they are
    recorded in a trace.
\<close>

subsection \<open>Errors\<close>

datatype py_error =
    ValueError string
  | OverflowError
  | KeyError string
  | TypeError
  | AttributeError

subsection \<open>const.py\<close>

text \<open>Modelled from the spec: const.py is not among the sources; section 6 of the
  specification gives the two status strings of the persisted format.\<close>

definition NEEDS_ACTION :: string where
  "NEEDS_ACTION = ''needs_action''"

definition COMPLETED :: string where
  "COMPLETED = ''completed''"

subsection \<open>TodoItem\<close>

record TodoItem =
  uid :: "string option"
  summary :: string
  status :: string
  due_date :: "string option"
  due_datetime :: "int option"
  description :: "string option"
  requiring :: "bool option"
  period :: "string option"

text \<open>Python truthiness of the optional fields: \<open>None\<close>, the empty string,
  \<open>False\<close> and \<open>0\<close> are false.\<close>

definition truthy_str :: "string option \<Rightarrow> bool" where
  "truthy_str v = (case v of None \<Rightarrow> False | Some s \<Rightarrow> s \<noteq> [])"

definition truthy_bool :: "bool option \<Rightarrow> bool" where
  "truthy_bool v = (case v of None \<Rightarrow> False | Some b \<Rightarrow> b)"

definition truthy_num :: "int option \<Rightarrow> bool" where
  "truthy_num v = (case v of None \<Rightarrow> False | Some n \<Rightarrow> n \<noteq> 0)"

subsection \<open>Durations and calendar offsets\<close>

text \<open>
  \<open>Timedelta s\<close> is a \<open>datetime.timedelta\<close> of \<open>s\<close> seconds;
  \<open>Relativedelta y m\<close> is a \<open>dateutil.relativedelta\<close> with the fields
  \<open>years = y\<close> and \<open>months = m\<close> and every other field at its default.
\<close>

datatype period_delta = Timedelta int | Relativedelta int int

text \<open>The constructor \<open>timedelta(...)\<close>, given the total number of seconds: the
  number of days of a timedelta has magnitude at most 999999999.\<close>

definition timedelta :: "int \<Rightarrow> py_error + period_delta" where
  "timedelta secs =
     (if \<bar>secs div 86400\<bar> > 999999999 then Inl OverflowError else Inr (Timedelta secs))"

text \<open>The constructor \<open>relativedelta(years=y, months=m)\<close>: a month count of
  magnitude above 11 is carried into the years.\<close>

definition relativedelta :: "int \<Rightarrow> int \<Rightarrow> period_delta" where
  "relativedelta years months =
     (if \<bar>months\<bar> > 11
      then Relativedelta (years + (\<bar>months\<bar> div 12) * sgn months) ((\<bar>months\<bar> mod 12) * sgn months)
      else Relativedelta years months)"

text \<open>Truthiness: a zero timedelta and a relativedelta with all fields zero are false,
  as is \<open>None\<close>.\<close>

definition truthy_delta :: "period_delta option \<Rightarrow> bool" where
  "truthy_delta v =
     (case v of None \<Rightarrow> False
      | Some (Timedelta s) \<Rightarrow> s \<noteq> 0
      | Some (Relativedelta y m) \<Rightarrow> y \<noteq> 0 \<or> m \<noteq> 0)"

subsection \<open>The period parser\<close>

definition is_digit :: "char \<Rightarrow> bool" where
  "is_digit c \<longleftrightarrow> c \<in> set ''0123456789''"

definition units :: "string list" where
  "units = [''minute'', ''hour'', ''day'', ''week'', ''month'', ''year'']"

text \<open>\<open>re.fullmatch(r"(\d+)(minute|hour|day|week|month|year)", s)\<close> and its two
  groups: no unit begins with a digit, so the first group is the longest digit prefix.\<close>

definition fullmatch_period :: "string \<Rightarrow> (string \<times> string) option" where
  "fullmatch_period s =
     (let num = takeWhile is_digit s; unit = dropWhile is_digit s
      in if num \<noteq> [] \<and> unit \<in> set units then Some (num, unit) else None)"


definition digit_val :: "char \<Rightarrow> int" where
  "digit_val c = int (of_char c) - 48"

definition int_of_digits :: "string \<Rightarrow> int" where
  "int_of_digits ds = foldl (\<lambda>acc c. 10 * acc + digit_val c) 0 ds"

text \<open>\<open>int(num)\<close> on a string of digits: CPython refuses a decimal string of more
  than 4300 digits (the default of \<open>sys.int_max_str_digits\<close>).\<close>

definition py_int :: "string \<Rightarrow> py_error + int" where
  "py_int ds =
     (if length ds > 4300 then Inl (ValueError ''Exceeds the limit for integer string conversion'')
      else Inr (int_of_digits ds))"

definition delta_of_unit :: "int \<Rightarrow> string \<Rightarrow> py_error + period_delta option" where
  "delta_of_unit num unit =
     (if unit = ''minute'' then map_sum id Some (timedelta (60 * num))
      else if unit = ''hour'' then map_sum id Some (timedelta (3600 * num))
      else if unit = ''day'' then map_sum id Some (timedelta (86400 * num))
      else if unit = ''week'' then map_sum id Some (timedelta (604800 * num))
      else if unit = ''month'' then Inr (Some (relativedelta 0 num))
      else if unit = ''year'' then Inr (Some (relativedelta num 0))
      else Inr None)"

definition parse_period :: "string option \<Rightarrow> py_error + period_delta option" where
  "parse_period period_str =
     (if \<not> truthy_str period_str then Inr None
      else case fullmatch_period (the period_str) of
          None \<Rightarrow> Inr None
        | Some (num, unit) \<Rightarrow>
            (case py_int num of
               Inl e \<Rightarrow> Inl e
             | Inr n \<Rightarrow> delta_of_unit n unit))"

subsection \<open>Naive local datetimes\<close>

text \<open>The proleptic Gregorian calendar of \<open>datetime\<close>: day 1 is 0001-01-01 and
  1970-01-01 is day 719163.\<close>

definition is_leap :: "int \<Rightarrow> bool" where
  "is_leap year \<longleftrightarrow> year mod 4 = 0 \<and> (year mod 100 \<noteq> 0 \<or> year mod 400 = 0)"

definition days_before_year :: "int \<Rightarrow> int" where
  "days_before_year year = (let y = year - 1 in y * 365 + y div 4 - y div 100 + y div 400)"

definition DAYS_IN_MONTH :: "int list" where
  "DAYS_IN_MONTH = [-1, 31, 28, 31, 30, 31, 30, 31, 31, 30, 31, 30, 31]"

definition DAYS_BEFORE_MONTH :: "int list" where
  "DAYS_BEFORE_MONTH = [-1, 0, 31, 59, 90, 120, 151, 181, 212, 243, 273, 304, 334]"

definition days_in_month :: "int \<Rightarrow> int \<Rightarrow> int" where
  "days_in_month year month =
     (if month = 2 \<and> is_leap year then 29 else DAYS_IN_MONTH ! nat month)"

definition days_before_month :: "int \<Rightarrow> int \<Rightarrow> int" where
  "days_before_month year month =
     DAYS_BEFORE_MONTH ! nat month + (if month > 2 \<and> is_leap year then 1 else 0)"

definition ymd2ord :: "int \<Rightarrow> int \<Rightarrow> int \<Rightarrow> int" where
  "ymd2ord year month day = days_before_year year + days_before_month year month + day"

definition ord2ymd :: "int \<Rightarrow> int \<times> int \<times> int" where
  "ord2ymd ordinal =
     (let n0 = ordinal - 1;
          n400 = n0 div 146097; n1 = n0 mod 146097;
          n100 = n1 div 36524; n2 = n1 mod 36524;
          n4 = n2 div 1461; n3 = n2 mod 1461;
          n1y = n3 div 365; n = n3 mod 365;
          year = n400 * 400 + 1 + n100 * 100 + n4 * 4 + n1y
      in if n1y = 4 \<or> n100 = 4 then (year - 1, 12, 31)
         else
           (let leapyear = (n1y = 3 \<and> (n4 \<noteq> 24 \<or> n100 = 3));
                month = (n + 50) div 32;
                preceding = DAYS_BEFORE_MONTH ! nat month + (if month > 2 \<and> leapyear then 1 else 0)
            in if preceding > n
               then (let month' = month - 1;
                         preceding' = preceding -
                           (DAYS_IN_MONTH ! nat month' + (if month' = 2 \<and> leapyear then 1 else 0))
                     in (year, month', n - preceding' + 1))
               else (year, month, n - preceding + 1)))"

type_synonym datetime = int

definition toordinal :: "datetime \<Rightarrow> int" where
  "toordinal d = 719163 + d div 86400"

definition dt_in_range :: "datetime \<Rightarrow> bool" where
  "dt_in_range d \<longleftrightarrow> 1 \<le> toordinal d \<and> toordinal d \<le> 3652059"

text \<open>\<open>datetime.fromtimestamp(ts)\<close>: the local time of an instant; it raises when
  the year falls outside 1..9999.\<close>

definition fromtimestamp :: "int \<Rightarrow> int \<Rightarrow> py_error + datetime" where
  "fromtimestamp tz ts =
     (if dt_in_range (ts + tz) then Inr (ts + tz) else Inl (ValueError ''year is out of range''))"

definition timestamp :: "int \<Rightarrow> datetime \<Rightarrow> int" where
  "timestamp tz d = d - tz"

definition add_timedelta :: "datetime \<Rightarrow> int \<Rightarrow> py_error + datetime" where
  "add_timedelta d secs = (if dt_in_range (d + secs) then Inr (d + secs) else Inl OverflowError)"

text \<open>\<open>calendar.monthrange(year, month)[1]\<close>.\<close>

definition monthrange :: "int \<Rightarrow> int \<Rightarrow> py_error + int" where
  "monthrange year month =
     (if month < 1 \<or> month > 12 then Inl (ValueError ''bad month number'')
      else Inr (days_in_month year month))"

text \<open>\<open>dt.replace(year=y, month=m, day=d)\<close> with the time of day kept.\<close>

definition replace_ymd :: "datetime \<Rightarrow> int \<Rightarrow> int \<Rightarrow> int \<Rightarrow> py_error + datetime" where
  "replace_ymd d year month day =
     (if year < 1 \<or> year > 9999 then Inl (ValueError ''year is out of range'')
      else Inr ((ymd2ord year month day - 719163) * 86400 + d mod 86400))"

text \<open>The year and month that \<open>relativedelta.__add__\<close> computes from those of the
  datetime.\<close>

definition shift_year_month :: "int \<Rightarrow> int \<Rightarrow> int \<Rightarrow> int \<Rightarrow> int \<times> int" where
  "shift_year_month y m years months =
     (let year = y + years in
      if months \<noteq> 0 then
        (let month = m + months in
         if month > 12 then (year + 1, month - 12)
         else if month < 1 then (year - 1, month + 12)
         else (year, month))
      else (year, m))"

definition add_relativedelta :: "datetime \<Rightarrow> int \<Rightarrow> int \<Rightarrow> py_error + datetime" where
  "add_relativedelta d years months =
     (case ord2ymd (toordinal d) of (y, m, dd) \<Rightarrow>
      (case shift_year_month y m years months of (year, month) \<Rightarrow>
       (case monthrange year month of
          Inl e \<Rightarrow> Inl e
        | Inr ndays \<Rightarrow>
            (case replace_ymd d year month (min ndays dd) of
               Inl e \<Rightarrow> Inl e
             | Inr r \<Rightarrow> add_timedelta r 0))))"

text \<open>\<open>dt + period_delta\<close>.\<close>

definition dt_add :: "datetime \<Rightarrow> period_delta \<Rightarrow> py_error + datetime" where
  "dt_add d pd =
     (case pd of
        Timedelta secs \<Rightarrow> add_timedelta d secs
      | Relativedelta years months \<Rightarrow> add_relativedelta d years months)"

subsection \<open>JSON documents and the persisted form of an item\<close>

datatype json =
    JNull
  | JBool bool
  | JNum int
  | JStr string
  | JArr "json list"
  | JObj "(string \<times> json) list"

definition truthy_json :: "json \<Rightarrow> bool" where
  "truthy_json v =
     (case v of JNull \<Rightarrow> False | JBool b \<Rightarrow> b | JNum n \<Rightarrow> n \<noteq> 0 | JStr s \<Rightarrow> s \<noteq> []
      | JArr xs \<Rightarrow> xs \<noteq> [] | JObj kvs \<Rightarrow> kvs \<noteq> [])"

definition json_of_str :: "string option \<Rightarrow> json" where
  "json_of_str v = (case v of None \<Rightarrow> JNull | Some s \<Rightarrow> JStr s)"

definition json_of_num :: "int option \<Rightarrow> json" where
  "json_of_num v = (case v of None \<Rightarrow> JNull | Some n \<Rightarrow> JNum n)"

definition json_of_bool :: "bool option \<Rightarrow> json" where
  "json_of_bool v = (case v of None \<Rightarrow> JNull | Some b \<Rightarrow> JBool b)"

definition to_dict :: "TodoItem \<Rightarrow> json" where
  "to_dict item = JObj
     [(''uid'', json_of_str (uid item)),
      (''summary'', JStr (summary item)),
      (''status'', JStr (status item)),
      (''due_date'', json_of_str (due_date item)),
      (''due_datetime'', json_of_num (due_datetime item)),
      (''description'', json_of_str (description item)),
      (''requiring'', json_of_bool (requiring item)),
      (''period'', json_of_str (period item))]"

text \<open>\<open>data.get(key)\<close>: \<open>None\<close> when the key is missing.\<close>

definition dict_get :: "(string \<times> json) list \<Rightarrow> string \<Rightarrow> json" where
  "dict_get d k = (case map_of d k of None \<Rightarrow> JNull | Some v \<Rightarrow> v)"

text \<open>
  The record is typed, a Python object is not: a stored field whose JSON type is not the
  one the dataclass declares has no counterpart in \<open>TodoItem\<close>. Such a document is
  outside the model; reading it gives \<open>Inl TypeError\<close> here.
\<close>

definition str_of_json :: "json \<Rightarrow> py_error + string option" where
  "str_of_json v = (case v of JNull \<Rightarrow> Inr None | JStr s \<Rightarrow> Inr (Some s) | _ \<Rightarrow> Inl TypeError)"

definition num_of_json :: "json \<Rightarrow> py_error + int option" where
  "num_of_json v = (case v of JNull \<Rightarrow> Inr None | JNum n \<Rightarrow> Inr (Some n) | _ \<Rightarrow> Inl TypeError)"

definition bool_of_json :: "json \<Rightarrow> py_error + bool option" where
  "bool_of_json v = (case v of JNull \<Rightarrow> Inr None | JBool b \<Rightarrow> Inr (Some b) | _ \<Rightarrow> Inl TypeError)"

definition from_dict_fields :: "(string \<times> json) list \<Rightarrow> py_error + TodoItem" where
  "from_dict_fields d =
     (case str_of_json (dict_get d ''uid'') of Inl e \<Rightarrow> Inl e | Inr v_uid \<Rightarrow>
      (case map_of d ''summary'' of
         None \<Rightarrow> Inl (KeyError ''summary'')
       | Some (JStr v_summary) \<Rightarrow>
          (case (case map_of d ''status'' of None \<Rightarrow> Inr NEEDS_ACTION
                 | Some (JStr s) \<Rightarrow> Inr s | Some _ \<Rightarrow> Inl TypeError) of
             Inl e \<Rightarrow> Inl e
           | Inr v_status \<Rightarrow>
          (case str_of_json (dict_get d ''due_date'') of Inl e \<Rightarrow> Inl e | Inr v_due_date \<Rightarrow>
          (case num_of_json (dict_get d ''due_datetime'') of Inl e \<Rightarrow> Inl e | Inr v_due_datetime \<Rightarrow>
          (case str_of_json (dict_get d ''description'') of Inl e \<Rightarrow> Inl e | Inr v_description \<Rightarrow>
          (case bool_of_json (dict_get d ''requiring'') of Inl e \<Rightarrow> Inl e | Inr v_requiring \<Rightarrow>
          (case str_of_json (dict_get d ''period'') of Inl e \<Rightarrow> Inl e | Inr v_period \<Rightarrow>
             Inr \<lparr>uid = v_uid, summary = v_summary, status = v_status, due_date = v_due_date,
                  due_datetime = v_due_datetime, description = v_description,
                  requiring = v_requiring, period = v_period\<rparr>))))))
       | Some _ \<Rightarrow> Inl TypeError))"

definition from_dict :: "json \<Rightarrow> py_error + TodoItem" where
  "from_dict data = (case data of JObj d \<Rightarrow> from_dict_fields d | _ \<Rightarrow> Inl AttributeError)"

text \<open>\<open>for item in items_list\<close>: a list gives its elements, a string its characters, a
  dict its keys; anything else is not iterable.\<close>

definition iter_json :: "json \<Rightarrow> py_error + json list" where
  "iter_json v =
     (case v of
        JArr xs \<Rightarrow> Inr xs
      | JStr s \<Rightarrow> Inr (map (\<lambda>c. JStr [c]) s)
      | JObj kvs \<Rightarrow> Inr (map (\<lambda>kv. JStr (fst kv)) kvs)
      | _ \<Rightarrow> Inl TypeError)"

text \<open>\<open>[TodoItem.from_dict(item) for item in items_list]\<close>: the first failure ends the
  comprehension.\<close>

fun from_dict_all :: "json list \<Rightarrow> py_error + TodoItem list" where
  "from_dict_all [] = Inr []"
| "from_dict_all (x # xs) =
     (case from_dict x of
        Inl e \<Rightarrow> Inl e
      | Inr item \<Rightarrow> (case from_dict_all xs of Inl e \<Rightarrow> Inl e | Inr items \<Rightarrow> Inr (item # items)))"

subsection \<open>MyTodoList\<close>

text \<open>What the entity does to the world around it, oldest first: the replacement of its
  storage file, a state write to the host, a call of one listener with the items.\<close>

datatype event =
    FileReplaced json
  | HAStateWritten "TodoItem list"
  | Notified nat "TodoItem list"

text \<open>
  The fields of the entity, and with them its storage file (\<open>None\<close> while the file
  does not exist, else the parsed document) and the trace of its effects. Listeners are
  named by numbers. \<open>display_name\<close> holds the JSON value last assigned to it, a
  string in every document the entity itself writes.
\<close>

record MyTodoList =
  display_name :: json
  attr_name :: json
  todo_items :: "TodoItem list"
  attr_todo_items :: "json list"
  listeners :: "nat list"
  storage :: "json option"
  trace :: "event list"

text \<open>The constructor, given the display name it settles on; no file is touched.\<close>

definition new_MyTodoList :: "string \<Rightarrow> json option \<Rightarrow> MyTodoList" where
  "new_MyTodoList shown file =
     \<lparr>display_name = JStr shown, attr_name = JStr shown, todo_items = [],
      attr_todo_items = [], listeners = [], storage = file, trace = []\<rparr>"

text \<open>The sort key \<open>float(item.due_datetime) if item.due_datetime is not None else
  float('inf')\<close>: a pair ordered lexicographically, so that every dated item comes
  before every undated one.\<close>

definition due_key :: "TodoItem \<Rightarrow> bool \<times> int" where
  "due_key item = (case due_datetime item of None \<Rightarrow> (True, 0) | Some t \<Rightarrow> (False, t))"

definition async_write_ha_state :: "MyTodoList \<Rightarrow> MyTodoList" where
  "async_write_ha_state st = st\<lparr>trace := trace st @ [HAStateWritten (todo_items st)]\<rparr>"

definition async_update_listeners :: "MyTodoList \<Rightarrow> MyTodoList" where
  "async_update_listeners st =
     st\<lparr>trace := trace st @ map (\<lambda>listener. Notified listener (todo_items st)) (listeners st)\<rparr>"

definition async_subscribe_updates :: "MyTodoList \<Rightarrow> nat \<Rightarrow> MyTodoList" where
  "async_subscribe_updates st listener =
     st\<lparr>listeners := listeners st @ [listener],
        trace := trace st @ [Notified listener (todo_items st)]\<rparr>"

definition document :: "json \<Rightarrow> TodoItem list \<Rightarrow> json" where
  "document shown items =
     JObj [(''display_name'', shown), (''todo_items'', JArr (map to_dict items))]"

definition save_and_refresh :: "MyTodoList \<Rightarrow> MyTodoList" where
  "save_and_refresh st =
     (let st1 = st\<lparr>todo_items := sort_key due_key (todo_items st)\<rparr>;
          data = document (display_name st1) (todo_items st1);
          st2 = st1\<lparr>storage := Some data, trace := trace st1 @ [FileReplaced data]\<rparr>;
          st3 = st2\<lparr>attr_todo_items := map to_dict (todo_items st2)\<rparr>
      in async_update_listeners (async_write_ha_state st3))"

definition async_load_items :: "MyTodoList \<Rightarrow> MyTodoList" where
  "async_load_items st =
     (case storage st of
        None \<Rightarrow> st\<lparr>todo_items := []\<rparr>
      | Some data \<Rightarrow>
          (case (case data of
                   JObj d \<Rightarrow>
                     (let stored_display_name = dict_get d ''display_name'';
                          items_list = (case map_of d ''todo_items'' of None \<Rightarrow> JArr [] | Some v \<Rightarrow> v)
                      in (if truthy_json stored_display_name
                          then async_write_ha_state
                                 (st\<lparr>display_name := stored_display_name,
                                     attr_name := stored_display_name\<rparr>)
                          else st, items_list))
                 | _ \<Rightarrow> (st, data)) of
             (st1, items_list) \<Rightarrow>
               (case iter_json items_list of
                  Inl e \<Rightarrow> st1
                | Inr xs \<Rightarrow>
                    (case from_dict_all xs of
                       Inl e \<Rightarrow> st1
                     | Inr items \<Rightarrow> st1\<lparr>todo_items := sort_key due_key items\<rparr>))))"

subsection \<open>Creating, updating and deleting items\<close>

text \<open>The loop of \<open>async_create_todo_item\<close> over the existing items: the first item
  with the summary of the new one is overwritten by it, under the old uid.\<close>

fun create_replace :: "TodoItem \<Rightarrow> TodoItem list \<Rightarrow> TodoItem list option" where
  "create_replace item [] = None"
| "create_replace item (existing_item # rest) =
     (if summary existing_item = summary item
      then Some (item\<lparr>uid := uid existing_item\<rparr> # rest)
      else map_option ((#) existing_item) (create_replace item rest))"

text \<open>\<open>new_uid\<close> is the string that \<open>str(uuid.uuid4())\<close> returns, were it called.\<close>

definition async_create_todo_item :: "MyTodoList \<Rightarrow> TodoItem \<Rightarrow> string \<Rightarrow> MyTodoList" where
  "async_create_todo_item st item new_uid =
     (case create_replace item (todo_items st) of
        Some items \<Rightarrow> save_and_refresh (st\<lparr>todo_items := items\<rparr>)
      | None \<Rightarrow>
          (let item' = (if \<not> truthy_str (uid item) then item\<lparr>uid := Some new_uid\<rparr> else item)
           in save_and_refresh (st\<lparr>todo_items := todo_items st @ [item']\<rparr>)))"

text \<open>The loop of \<open>async_update_todo_item\<close>; \<open>None\<close> is its \<open>else\<close> branch.\<close>

fun update_replace :: "TodoItem \<Rightarrow> TodoItem list \<Rightarrow> TodoItem list option" where
  "update_replace updated_item [] = None"
| "update_replace updated_item (item # rest) =
     (if truthy_str (uid updated_item) \<and> uid item = uid updated_item
      then Some (updated_item # rest)
      else if \<not> truthy_str (uid updated_item) \<and> summary item = summary updated_item
      then Some (updated_item # rest)
      else map_option ((#) item) (update_replace updated_item rest))"

definition async_update_todo_item :: "MyTodoList \<Rightarrow> TodoItem \<Rightarrow> MyTodoList" where
  "async_update_todo_item st updated_item =
     (case update_replace updated_item (todo_items st) of
        None \<Rightarrow> st
      | Some items \<Rightarrow> save_and_refresh (st\<lparr>todo_items := items\<rparr>))"

text \<open>\<open>item.uid not in uids\<close>, with \<open>uids\<close> a list of strings.\<close>

definition uid_not_in :: "string list \<Rightarrow> TodoItem \<Rightarrow> bool" where
  "uid_not_in uids item = (case uid item of None \<Rightarrow> True | Some u \<Rightarrow> u \<notin> set uids)"

definition async_delete_todo_items :: "MyTodoList \<Rightarrow> string list \<Rightarrow> MyTodoList" where
  "async_delete_todo_items st uids =
     save_and_refresh (st\<lparr>todo_items := filter (uid_not_in uids) (todo_items st)\<rparr>)"

subsection \<open>Moving an item\<close>

text \<open>\<open>{item.uid: idx for idx, item in enumerate(self._todo_items)}\<close>: a later item
  with the same uid overwrites the entry of an earlier one.\<close>

definition index_map :: "TodoItem list \<Rightarrow> (string option \<rightharpoonup> nat)" where
  "index_map items =
     fold (\<lambda>(idx, item) m. m(uid item \<mapsto> idx)) (enumerate 0 items) Map.empty"

text \<open>\<open>list.pop(i)\<close> for an index within the list, and \<open>list.insert(i, x)\<close>, which
  appends when \<open>i\<close> is past the end.\<close>

definition pop_at :: "nat \<Rightarrow> 'a list \<Rightarrow> 'a list" where
  "pop_at i xs = take i xs @ drop (Suc i) xs"

definition insert_at :: "nat \<Rightarrow> 'a \<Rightarrow> 'a list \<Rightarrow> 'a list" where
  "insert_at i x xs = take i xs @ x # drop i xs"

definition async_move_todo_item ::
    "MyTodoList \<Rightarrow> string \<Rightarrow> string option \<Rightarrow> py_error option \<times> MyTodoList" where
  "async_move_todo_item st uid' previous_uid =
     (let m = index_map (todo_items st) in
      case m (Some uid') of
        None \<Rightarrow> (Some (ValueError (''UID '' @ uid' @ '' not found'')), st)
      | Some i \<Rightarrow>
          (let item = todo_items st ! i;
               st1 = st\<lparr>todo_items := pop_at i (todo_items st)\<rparr>
           in if truthy_str previous_uid then
                (case m previous_uid of
                   None \<Rightarrow>
                     (Some (ValueError (''Previous UID '' @ the previous_uid @ '' not found'')), st1)
                 | Some p \<Rightarrow>
                     (let prev_index = (if p > i then p - 1 else p)
                      in (None, save_and_refresh
                            (st1\<lparr>todo_items := insert_at (prev_index + 1) item (todo_items st1)\<rparr>))))
              else (None, save_and_refresh
                            (st1\<lparr>todo_items := insert_at 0 item (todo_items st1)\<rparr>))))"

subsection \<open>Rescheduling the requiring items\<close>

definition parse_datetime :: "int \<Rightarrow> int option \<Rightarrow> py_error + datetime option" where
  "parse_datetime tz v =
     (if \<not> truthy_num v then Inr None
      else case fromtimestamp tz (the v) of
          Inl (ValueError msg) \<Rightarrow> Inr None
        | Inl TypeError \<Rightarrow> Inr None
        | Inl e \<Rightarrow> Inl e
        | Inr d \<Rightarrow> Inr (Some d))"

text \<open>The new due instant of a completed item: \<open>now\<close> is the naive local datetime
  that \<open>datetime.now()\<close> returned.\<close>

definition new_due :: "int \<Rightarrow> datetime \<Rightarrow> int option \<Rightarrow> period_delta \<Rightarrow> py_error + int" where
  "new_due tz now due pd =
     (if truthy_num due then
        (case fromtimestamp tz (the due) of
           Inl e \<Rightarrow> Inl e
         | Inr old_due \<Rightarrow> map_sum id (timestamp tz) (dt_add old_due pd))
      else map_sum id (timestamp tz) (dt_add now pd))"

text \<open>One pass of the loop body: the error raised, if any, the item as the pass left it,
  and whether \<open>updated\<close> was set.\<close>

definition reschedule_item ::
    "int \<Rightarrow> datetime \<Rightarrow> TodoItem \<Rightarrow> py_error option \<times> TodoItem \<times> bool" where
  "reschedule_item tz now item =
     (if \<not> truthy_bool (requiring item) \<or> \<not> truthy_str (period item) then (None, item, False)
      else case parse_period (period item) of
          Inl e \<Rightarrow> (Some e, item, False)
        | Inr period_delta \<Rightarrow>
            if \<not> truthy_delta period_delta then (None, item, False)
            else (case parse_datetime tz (due_datetime item) of
                Inl e \<Rightarrow> (Some e, item, False)
              | Inr old_due \<Rightarrow>
                  if status item = COMPLETED then
                    (let item1 = item\<lparr>status := NEEDS_ACTION\<rparr> in
                     case new_due tz now (due_datetime item1) (the period_delta) of
                       Inl e \<Rightarrow> (Some e, item1, False)
                     | Inr t \<Rightarrow> (None, item1\<lparr>due_datetime := Some t\<rparr>, True))
                  else (None, item, False)))"

fun reschedule_loop ::
    "int \<Rightarrow> datetime \<Rightarrow> TodoItem list \<Rightarrow> py_error option \<times> TodoItem list \<times> bool" where
  "reschedule_loop tz now [] = (None, [], False)"
| "reschedule_loop tz now (item # rest) =
     (case reschedule_item tz now item of
        (Some e, item', u) \<Rightarrow> (Some e, item' # rest, u)
      | (None, item', u) \<Rightarrow>
          (case reschedule_loop tz now rest of
             (err, rest', u') \<Rightarrow> (err, item' # rest', u \<or> u')))"

definition async_update_requiring_items ::
    "int \<Rightarrow> datetime \<Rightarrow> MyTodoList \<Rightarrow> py_error option \<times> MyTodoList" where
  "async_update_requiring_items tz now st =
     (case reschedule_loop tz now (todo_items st) of
        (Some e, items, updated) \<Rightarrow> (Some e, st\<lparr>todo_items := items\<rparr>)
      | (None, items, updated) \<Rightarrow>
          if updated then (None, save_and_refresh (st\<lparr>todo_items := items\<rparr>))
          else (None, st\<lparr>todo_items := items\<rparr>))"

subsection \<open>Periods within the range of the library types\<close>



subsection \<open>Auxiliary notions for the properties\<close>

text \<open>The dataclass constructor \<open>TodoItem(uid, summary)\<close> with every other field
  at its default.\<close>

definition new_TodoItem :: "string option \<Rightarrow> string \<Rightarrow> TodoItem" where
  "new_TodoItem u s =
     \<lparr>uid = u, summary = s, status = NEEDS_ACTION, due_date = None, due_datetime = None,
      description = None, requiring = None, period = None\<rparr>"

text \<open>\<open>saved st raw st'\<close>: the entity \<open>st'\<close> is \<open>st\<close> after the sequence
  \<open>raw\<close> has been sorted, written to the storage file, pushed to the host and sent
  to every listener, in this order.\<close>

definition saved :: "MyTodoList \<Rightarrow> TodoItem list \<Rightarrow> MyTodoList \<Rightarrow> bool" where
  "saved st raw st' \<longleftrightarrow>
     todo_items st' = sort_key due_key raw \<and>
     storage st' = Some (document (display_name st) (todo_items st')) \<and>
     trace st' = trace st @
       [FileReplaced (document (display_name st) (todo_items st')),
        HAStateWritten (todo_items st')] @
       map (\<lambda>listener. Notified listener (todo_items st')) (listeners st) \<and>
     listeners st' = listeners st \<and>
     display_name st' = display_name st"

subsection \<open>A small list for concrete runs\<close>

text \<open>An undated item with uid \<open>a\<close>, an item due at instant 5 with uid \<open>b\<close>, and
  the list that one subscription and the creation of the two leave behind.\<close>

definition item_a :: TodoItem where
  "item_a = new_TodoItem (Some ''a'') ''A''"

definition item_b :: TodoItem where
  "item_b = (new_TodoItem (Some ''b'') ''B'')\<lparr>due_datetime := Some 5\<rparr>"

definition list_ab :: MyTodoList where
  "list_ab =
     async_create_todo_item
       (async_create_todo_item (async_subscribe_updates (new_MyTodoList ''L'' None) 7)
          (item_a\<lparr>uid := None\<rparr>) ''a'')
       (item_b\<lparr>uid := None\<rparr>) ''b''"

definition item_x :: TodoItem where
  "item_x = new_TodoItem (Some ''x'') ''X''"

definition list_b :: MyTodoList where
  "list_b = (new_MyTodoList ''L'' None)\<lparr>todo_items := [item_b]\<rparr>"

text \<open>A bare array of the two items, and an object that wraps it.\<close>

definition legacy_doc :: json where
  "legacy_doc = JArr [to_dict item_a, to_dict item_b]"

definition wrapped_doc :: "(string \<times> json) list" where
  "wrapped_doc = [(''display_name'', JStr ''Shopping''), (''todo_items'', legacy_doc)]"

text \<open>The small list after the attempt to move \<open>a\<close> behind the unknown uid
  \<open>zzz\<close>.\<close>

definition list_after_failed_move :: MyTodoList where
  "list_after_failed_move = snd (async_move_todo_item list_ab ''a'' (Some ''zzz''))"

subsection \<open>The operations of the list as one step function\<close>

datatype op =
    Create TodoItem string
  | Update TodoItem
  | Delete "string list"
  | Move string "string option"
  | Reschedule int int

fun apply_op :: "MyTodoList \<Rightarrow> op \<Rightarrow> py_error option \<times> MyTodoList" where
  "apply_op st (Create item new_uid) = (None, async_create_todo_item st item new_uid)"
| "apply_op st (Update updated_item) = (None, async_update_todo_item st updated_item)"
| "apply_op st (Delete uids) = (None, async_delete_todo_items st uids)"
| "apply_op st (Move uid' previous_uid) = async_move_todo_item st uid' previous_uid"
| "apply_op st (Reschedule tz now) = async_update_requiring_items tz now st"

text \<open>The sequence that an operation passes to \<open>_save_and_refresh\<close>, if it gets
  there: not when \<open>async_update_todo_item\<close> finds no item, when
  \<open>async_move_todo_item\<close> raises, or when \<open>async_update_requiring_items\<close> raises or
  changes nothing.\<close>

fun handed_to_save :: "MyTodoList \<Rightarrow> op \<Rightarrow> TodoItem list option" where
  "handed_to_save st (Create item new_uid) =
     (case create_replace item (todo_items st) of
        Some items \<Rightarrow> Some items
      | None \<Rightarrow>
          Some (todo_items st @
                [if \<not> truthy_str (uid item) then item\<lparr>uid := Some new_uid\<rparr> else item]))"
| "handed_to_save st (Update updated_item) = update_replace updated_item (todo_items st)"
| "handed_to_save st (Delete uids) = Some (filter (uid_not_in uids) (todo_items st))"
| "handed_to_save st (Move uid' previous_uid) =
     (case index_map (todo_items st) (Some uid') of
        None \<Rightarrow> None
      | Some i \<Rightarrow>
          if truthy_str previous_uid then
            (case index_map (todo_items st) previous_uid of
               None \<Rightarrow> None
             | Some p \<Rightarrow>
                 Some (insert_at ((if p > i then p - 1 else p) + 1) (todo_items st ! i)
                         (pop_at i (todo_items st))))
          else Some (insert_at 0 (todo_items st ! i) (pop_at i (todo_items st))))"
| "handed_to_save st (Reschedule tz now) =
     (case reschedule_loop tz now (todo_items st) of
        (None, items, True) \<Rightarrow> Some items
      | _ \<Rightarrow> None)"


subsection \<open>Sequences of operations\<close>

text \<open>The list after a sequence of operations; an operation that raises leaves the list
  as it was when the error came up, and the next operation starts from there.\<close>

fun run :: "MyTodoList \<Rightarrow> op list \<Rightarrow> MyTodoList" where
  "run st [] = st"
| "run st (op # ops) = run (snd (apply_op st op)) ops"

text \<open>\<open>brings_new_uid st op\<close>: the operation puts no uid into the list that is
  already there. A creation that appends does so under the uid of the item, or under
  \<open>new_uid\<close> when the item has none; an update addressed by summary puts the falsy uid
  of the new item in the place of the uid of the old one.\<close>

fun brings_new_uid :: "MyTodoList \<Rightarrow> op \<Rightarrow> bool" where
  "brings_new_uid st (Create item new_uid) =
     (create_replace item (todo_items st) \<noteq> None \<or>
      (if truthy_str (uid item) then uid item else Some new_uid) \<notin> set (map uid (todo_items st)))"
| "brings_new_uid st (Update updated_item) =
     (truthy_str (uid updated_item) \<or> uid updated_item \<notin> set (map uid (todo_items st)))"
| "brings_new_uid st _ = True"

fun all_bring_new_uids :: "MyTodoList \<Rightarrow> op list \<Rightarrow> bool" where
  "all_bring_new_uids st [] = True"
| "all_bring_new_uids st (op # ops) =
     (brings_new_uid st op \<and> all_bring_new_uids (snd (apply_op st op)) ops)"

text \<open>The uids of the items, \<open>None\<close> among them, are pairwise distinct.\<close>

definition uids_distinct :: "MyTodoList \<Rightarrow> bool" where
  "uids_distinct st = distinct (map uid (todo_items st))"

text \<open>Two sequences for concrete runs: one on the list \<open>[b]\<close> with fresh uids, one
  on the empty list that creates two items under the uid \<open>x\<close>.\<close>

definition ops_w :: "op list" where
  "ops_w = [Create (item_x\<lparr>uid := None\<rparr>) ''u1'',
            Update (item_x\<lparr>uid := Some ''u1'', summary := ''Z''\<rparr>),
            Move ''u1'' None,
            Delete [''b'']]"

definition ops_twice :: "op list" where
  "ops_twice = [Create item_x ''u1'', Create (item_x\<lparr>summary := ''Y''\<rparr>) ''u2'']"

subsection \<open>Rescheduling, as the specification words it\<close>
















section \<open>Properties\<close>

subsection \<open>The period parser\<close>












subsection \<open>Saving and refreshing\<close>

lemma todo_items_save_and_refresh [simp]:
  "todo_items (save_and_refresh st) = sort_key due_key (todo_items st)"
  by (simp add: save_and_refresh_def Let_def async_update_listeners_def async_write_ha_state_def)

lemma storage_save_and_refresh [simp]:
  "storage (save_and_refresh st) =
     Some (document (display_name st) (sort_key due_key (todo_items st)))"
  by (simp add: save_and_refresh_def Let_def async_update_listeners_def async_write_ha_state_def)

lemma trace_save_and_refresh:
  "trace (save_and_refresh st) = trace st @
     [FileReplaced (document (display_name st) (sort_key due_key (todo_items st))),
      HAStateWritten (sort_key due_key (todo_items st))] @
     map (\<lambda>listener. Notified listener (sort_key due_key (todo_items st))) (listeners st)"
  by (simp add: save_and_refresh_def Let_def async_update_listeners_def async_write_ha_state_def)

lemma listeners_save_and_refresh [simp]:
  "listeners (save_and_refresh st) = listeners st"
  by (simp add: save_and_refresh_def Let_def async_update_listeners_def async_write_ha_state_def)

lemma display_name_save_and_refresh [simp]:
  "display_name (save_and_refresh st) = display_name st"
  by (simp add: save_and_refresh_def Let_def async_update_listeners_def async_write_ha_state_def)

lemma saved_save_and_refresh:
  "saved st raw (save_and_refresh (st\<lparr>todo_items := raw\<rparr>))"
  by (simp add: saved_def trace_save_and_refresh)

subsection \<open>Creating an item\<close>

lemma create_replace_None_iff:
  "create_replace item items = None \<longleftrightarrow> (\<forall>e \<in> set items. summary e \<noteq> summary item)"
  by (induction items) auto


subsection \<open>Creating an item: the two branches\<close>

text \<open>
  C10. When no existing item has the summary of the new item, the item is appended (and
  the sequence then sorted, stored and broadcast) under the uid the caller gave it when
  that uid is neither absent nor empty; only otherwise under the generated one.
\<close>

theorem create_keeps_caller_uid:
  assumes "\<forall>e \<in> set (todo_items st). summary e \<noteq> summary item"
  shows "saved st
           (todo_items st @ [if truthy_str (uid item) then item else item\<lparr>uid := Some new_uid\<rparr>])
           (async_create_todo_item st item new_uid)"
proof -
  from assms have "create_replace item (todo_items st) = None"
    by (simp add: create_replace_None_iff)
  then show ?thesis
    by (simp add: async_create_todo_item_def Let_def saved_save_and_refresh)
qed


subsection \<open>The small list\<close>

lemma due_key_item_a: "due_key item_a = (True, 0)"
  by (simp add: due_key_def item_a_def new_TodoItem_def)

lemma due_key_item_b: "due_key item_b = (False, 5)"
  by (simp add: due_key_def item_b_def new_TodoItem_def)

lemma summary_items: "summary item_a = ''A''" "summary item_b = ''B''"
  by (simp_all add: item_a_def item_b_def new_TodoItem_def)

lemma uid_items: "uid item_a = Some ''a''" "uid item_b = Some ''b''"
  by (simp_all add: item_a_def item_b_def new_TodoItem_def)

lemma item_uid_restore: "item_a\<lparr>uid := Some ''a''\<rparr> = item_a" "item_b\<lparr>uid := Some ''b''\<rparr> = item_b"
  by (simp_all add: item_a_def item_b_def new_TodoItem_def)

lemma todo_items_list_ab: "todo_items list_ab = [item_b, item_a]"
  by (simp add: list_ab_def async_create_todo_item_def async_subscribe_updates_def
      new_MyTodoList_def truthy_str_def Let_def summary_items item_uid_restore
      due_key_item_a due_key_item_b)

lemma storage_list_ab: "storage list_ab = Some (document (JStr ''L'') [item_b, item_a])"
  by (simp add: list_ab_def async_create_todo_item_def async_subscribe_updates_def
      new_MyTodoList_def truthy_str_def Let_def summary_items item_uid_restore
      due_key_item_a due_key_item_b)

lemma index_map_list_ab:
  "index_map [item_b, item_a] (Some ''a'') = Some 1"
  "index_map [item_b, item_a] (Some ''zzz'') = None"
  by (simp_all add: index_map_def enumerate_eq_zip uid_items)

subsection \<open>Moving an item\<close>

text \<open>
  C1, at a failing input. On the list \<open>[b, a]\<close>, moving \<open>a\<close> after the unknown
  uid \<open>zzz\<close> raises the not-found error, and the storage file, the listeners and the
  trace are as before; but the item \<open>a\<close> has already been popped, so the sequence in
  memory is \<open>[b]\<close> and no longer the one before the call.
\<close>

theorem move_after_unknown_uid_drops_item:
  "async_move_todo_item list_ab ''a'' (Some ''zzz'') =
     (Some (ValueError ''Previous UID zzz not found''), list_ab\<lparr>todo_items := [item_b]\<rparr>) \<and>
   todo_items list_ab = [item_b, item_a]"
  by (simp add: async_move_todo_item_def todo_items_list_ab index_map_list_ab Let_def
      truthy_str_def pop_at_def)

subsection \<open>Creating an item: concrete runs\<close>

lemma item_x_simps: "uid item_x = Some ''x''" "summary item_x = ''X''" "due_key item_x = (True, 0)"
  by (simp_all add: item_x_def new_TodoItem_def due_key_def)

lemma todo_items_list_b: "todo_items list_b = [item_b]"
  by (simp add: list_b_def)

text \<open>C10 on the list \<open>[b]\<close>: the item with uid \<open>x\<close> and a fresh summary is
  appended as it is.\<close>

theorem create_keeps_caller_uid_witness:
  "todo_items list_b = [item_b] \<and> summary item_b \<noteq> summary item_x \<and>
   todo_items (async_create_todo_item list_b item_x ''u1'') = [item_b, item_x] \<and>
   uid item_x = Some ''x''"
  using create_keeps_caller_uid [of list_b item_x "''u1''"]
  by (simp add: saved_def todo_items_list_b summary_items item_x_simps truthy_str_def
      due_key_item_b)


lemma due_key_update [simp]:
  "due_key (item\<lparr>uid := u\<rparr>) = due_key item"
  "due_key (item\<lparr>summary := s\<rparr>) = due_key item"
  by (simp_all add: due_key_def)


subsection \<open>Loading the storage file\<close>

lemma str_of_json_of_str [simp]: "str_of_json (json_of_str v) = Inr v"
  by (cases v) (simp_all add: str_of_json_def json_of_str_def)

lemma num_of_json_of_num [simp]: "num_of_json (json_of_num v) = Inr v"
  by (cases v) (simp_all add: num_of_json_def json_of_num_def)

lemma bool_of_json_of_bool [simp]: "bool_of_json (json_of_bool v) = Inr v"
  by (cases v) (simp_all add: bool_of_json_def json_of_bool_def)

lemma from_dict_to_dict [simp]: "from_dict (to_dict item) = Inr item"
  by (simp add: from_dict_def to_dict_def from_dict_fields_def dict_get_def)

lemma from_dict_all_to_dict [simp]: "from_dict_all (map to_dict items) = Inr items"
  by (induction items) simp_all

lemma sort_key_idem: "sort_key f (sort_key f xs) = sort_key f xs"
  by (simp add: sort_key_id_if_sorted)

lemma load_document:
  assumes "storage st = Some (document shown items)"
  shows "todo_items (async_load_items st) = sort_key due_key items"
  using assms
  by (simp add: async_load_items_def document_def dict_get_def iter_json_def Let_def
      async_write_ha_state_def)

lemma load_after_save:
  "todo_items (async_load_items (save_and_refresh st)) = todo_items (save_and_refresh st)"
proof -
  have "todo_items (async_load_items (save_and_refresh st)) =
      sort_key due_key (sort_key due_key (todo_items st))"
    by (simp add: async_load_items_def document_def dict_get_def iter_json_def Let_def
      async_write_ha_state_def)
  then show ?thesis by (simp add: sort_key_idem)
qed

text \<open>
  C9. A storage file that holds a bare array of item objects loads into the same item
  sequence as a file that holds an object whose \<open>todo_items\<close> field is that array,
  and loading the bare array leaves the display name of the list as it was.
\<close>

theorem load_legacy_as_wrapped:
  assumes "map_of d ''todo_items'' = Some (JArr xs)"
  shows "todo_items (async_load_items (st\<lparr>storage := Some (JArr xs)\<rparr>)) =
         todo_items (async_load_items (st\<lparr>storage := Some (JObj d)\<rparr>)) \<and>
         display_name (async_load_items (st\<lparr>storage := Some (JArr xs)\<rparr>)) = display_name st"
proof -
  have l: "async_load_items (st\<lparr>storage := Some (JArr xs)\<rparr>) =
      (case from_dict_all xs of
         Inl e \<Rightarrow> st\<lparr>storage := Some (JArr xs)\<rparr>
       | Inr items \<Rightarrow> st\<lparr>storage := Some (JArr xs), todo_items := sort_key due_key items\<rparr>)"
    by (simp add: async_load_items_def iter_json_def)
  have w: "todo_items (async_load_items (st\<lparr>storage := Some (JObj d)\<rparr>)) =
      (case from_dict_all xs of
         Inl e \<Rightarrow> todo_items st
       | Inr items \<Rightarrow> sort_key due_key items)"
    using assms
    by (simp add: async_load_items_def iter_json_def Let_def async_write_ha_state_def
        split: sum.splits)
  show ?thesis
    by (simp add: l w split: sum.splits)
qed

text \<open>C9 on a file with the items \<open>a\<close> and \<open>b\<close>: both forms load as
  \<open>[b, a]\<close>, and the bare array leaves the display name \<open>L\<close>.\<close>

theorem load_legacy_as_wrapped_witness:
  "map_of wrapped_doc ''todo_items'' = Some (JArr [to_dict item_a, to_dict item_b]) \<and>
   todo_items (async_load_items ((new_MyTodoList ''L'' None)\<lparr>storage := Some (JObj wrapped_doc)\<rparr>))
     = [item_b, item_a] \<and>
   todo_items (async_load_items ((new_MyTodoList ''L'' None)\<lparr>storage := Some legacy_doc\<rparr>))
     = [item_b, item_a] \<and>
   display_name (async_load_items ((new_MyTodoList ''L'' None)\<lparr>storage := Some legacy_doc\<rparr>))
     = JStr ''L''"
proof -
  have m: "map_of wrapped_doc ''todo_items'' = Some (JArr [to_dict item_a, to_dict item_b])"
    by (simp add: wrapped_doc_def legacy_doc_def)
  have l: "todo_items (async_load_items ((new_MyTodoList ''L'' None)\<lparr>storage := Some legacy_doc\<rparr>))
     = [item_b, item_a]"
    by (simp add: async_load_items_def legacy_doc_def iter_json_def due_key_item_a
        due_key_item_b)
  have d: "display_name (new_MyTodoList ''L'' None) = JStr ''L''"
    by (simp add: new_MyTodoList_def)
  show ?thesis
    using load_legacy_as_wrapped [OF m, of "new_MyTodoList ''L'' None"] m l d
    by (simp add: legacy_doc_def)
qed

subsection \<open>Memory and file after a failed move\<close>

lemma async_move_list_ab:
  "async_move_todo_item list_ab ''a'' (Some ''zzz'') =
     (Some (ValueError ''Previous UID zzz not found''), list_ab\<lparr>todo_items := [item_b]\<rparr>)"
  by (simp add: async_move_todo_item_def todo_items_list_ab index_map_list_ab Let_def
      truthy_str_def pop_at_def)

text \<open>
  C7, at a failing input. After the move of \<open>a\<close> behind the unknown uid \<open>zzz\<close>
  has raised, the sequence in memory is \<open>[b]\<close> while the storage file still reads
  back as \<open>[b, a]\<close>; an update that finds no item then completes without saving and
  leaves the two apart.
\<close>

theorem failed_move_leaves_memory_and_file_apart:
  "todo_items list_after_failed_move = [item_b] \<and>
   todo_items (async_load_items list_after_failed_move) = [item_b, item_a] \<and>
   async_update_todo_item list_after_failed_move item_x = list_after_failed_move"
proof -
  have s: "list_after_failed_move = list_ab\<lparr>todo_items := [item_b]\<rparr>"
    by (simp add: list_after_failed_move_def async_move_list_ab)
  have "storage list_after_failed_move = Some (document (JStr ''L'') [item_b, item_a])"
    by (simp add: s storage_list_ab)
  then have "todo_items (async_load_items list_after_failed_move) = [item_b, item_a]"
    by (simp add: load_document due_key_item_a due_key_item_b)
  moreover have "async_update_todo_item list_after_failed_move item_x = list_after_failed_move"
    by (simp add: s async_update_todo_item_def item_x_simps uid_items truthy_str_def)
  ultimately show ?thesis by (simp add: s)
qed

subsection \<open>The canonical order after a mutation\<close>


lemma due_key_eq_iff: "due_key x = due_key y \<longleftrightarrow> due_datetime x = due_datetime y"
  by (auto simp: due_key_def split: option.splits)






lemma index_map_list_ab_b: "index_map [item_b, item_a] (Some ''b'') = Some 0"
  by (simp add: index_map_def enumerate_eq_zip uid_items)



text \<open>An operation that does not get to save writes nothing and calls nobody.\<close>

lemma no_save_no_effects:
  assumes "handed_to_save st op = None"
  shows "storage (snd (apply_op st op)) = storage st \<and>
         trace (snd (apply_op st op)) = trace st \<and>
         listeners (snd (apply_op st op)) = listeners st"
proof (cases op)
  case (Create item new_uid)
  with assms show ?thesis by (simp split: option.splits)
next
  case (Update updated_item)
  with assms show ?thesis by (simp add: async_update_todo_item_def)
next
  case (Delete uids)
  with assms show ?thesis by simp
next
  case (Move uid' previous_uid)
  with assms show ?thesis
    by (auto simp: async_move_todo_item_def Let_def split: option.splits if_splits)
next
  case (Reschedule tz now)
  with assms show ?thesis
    by (auto simp: async_update_requiring_items_def split: prod.splits option.splits bool.splits)
qed

subsection \<open>Uniqueness of the uids\<close>

lemma distinct_uid_sort_key [simp]:
  "distinct (map uid (sort_key f xs)) = distinct (map uid xs)"
  by (simp add: distinct_map)

lemma uids_distinct_save [simp]:
  "uids_distinct (save_and_refresh st) = uids_distinct st"
  by (simp add: uids_distinct_def)

lemma create_replace_uids:
  "create_replace item xs = Some ys \<Longrightarrow> map uid ys = map uid xs"
  by (induction xs arbitrary: ys) (auto split: if_splits)

lemma update_replace_uids:
  "update_replace u xs = Some ys \<Longrightarrow> truthy_str (uid u) \<Longrightarrow> map uid ys = map uid xs"
  by (induction xs arbitrary: ys) (auto split: if_splits)

lemma update_replace_set:
  "update_replace u xs = Some ys \<Longrightarrow> \<exists>pre x post. xs = pre @ x # post \<and> ys = pre @ u # post"
proof (induction xs arbitrary: ys)
  case Nil
  then show ?case by simp
next
  case (Cons a xs)
  show ?case
  proof (cases "update_replace u (a # xs) = Some (u # xs)")
    case True
    with Cons.prems have "ys = u # xs" by simp
    then show ?thesis by (intro exI [of _ "[]"]) auto
  next
    case False
    with Cons.prems obtain zs where z: "update_replace u xs = Some zs" and y: "ys = a # zs"
      by (auto split: if_splits)
    from Cons.IH [OF z] obtain pre x post where "xs = pre @ x # post" "zs = pre @ u # post"
      by blast
    with y show ?thesis by (intro exI [of _ "a # pre"]) auto
  qed
qed

lemma update_replace_distinct:
  assumes "update_replace u xs = Some ys" and "distinct (map uid xs)"
    and "truthy_str (uid u) \<or> uid u \<notin> set (map uid xs)"
  shows "distinct (map uid ys)"
proof (cases "truthy_str (uid u)")
  case True
  with assms(1,2) show ?thesis by (simp add: update_replace_uids)
next
  case False
  with assms(3) have n: "uid u \<notin> set (map uid xs)" by simp
  from update_replace_set [OF assms(1)] obtain pre x post
    where "xs = pre @ x # post" "ys = pre @ u # post" by blast
  with assms(2) n show ?thesis by auto
qed

lemma distinct_pop_at:
  assumes "distinct ys"
  shows "distinct (take i ys @ drop (Suc i) ys)"
proof (cases "i < length ys")
  case True
  then have "ys = take i ys @ ys ! i # drop (Suc i) ys" by (rule id_take_nth_drop)
  with assms have "distinct (take i ys @ ys ! i # drop (Suc i) ys)" by simp
  then show ?thesis by simp
next
  case False
  with assms show ?thesis by simp
qed

lemma distinct_uid_pop_at:
  "distinct (map uid xs) \<Longrightarrow> distinct (map uid (pop_at i xs))"
  using distinct_pop_at [of "map uid xs" i]
  by (simp add: pop_at_def take_map drop_map)

lemma distinct_insert_at:
  assumes "distinct ys" and "x \<notin> set ys"
  shows "distinct (take j ys @ x # drop j ys)"
proof -
  have "set (take j ys) \<inter> set (drop j ys) = {}"
    using assms(1) by (simp add: set_take_disj_set_drop_if_distinct)
  moreover have "x \<notin> set (take j ys)" "x \<notin> set (drop j ys)"
    using assms(2) by (auto dest: in_set_takeD in_set_dropD)
  ultimately show ?thesis using assms(1) by simp
qed

lemma distinct_uid_move:
  assumes "distinct (map uid xs)" and "i < length xs"
  shows "distinct (map uid (insert_at j (xs ! i) (pop_at i xs)))"
proof -
  have p: "map uid (pop_at i xs) = take i (map uid xs) @ drop (Suc i) (map uid xs)"
    by (simp add: pop_at_def take_map drop_map)
  have "distinct (take i (map uid xs) @ (map uid xs ! i) # drop (Suc i) (map uid xs))"
    by (subst id_take_nth_drop [symmetric]) (simp_all add: assms)
  then have "distinct (take i (map uid xs) @ uid (xs ! i) # drop (Suc i) (map uid xs))"
    using assms(2) by simp
  then have d: "distinct (map uid (pop_at i xs))"
    and n: "uid (xs ! i) \<notin> set (map uid (pop_at i xs))"
    by (simp_all add: p)
  have "map uid (insert_at j (xs ! i) (pop_at i xs)) =
      take j (map uid (pop_at i xs)) @ uid (xs ! i) # drop j (map uid (pop_at i xs))"
    by (simp add: insert_at_def take_map drop_map)
  with distinct_insert_at [OF d n] show ?thesis by simp
qed

lemma fold_index_map:
  assumes "fold (\<lambda>(idx, item) m. m(uid item \<mapsto> idx)) (enumerate n xs) m k = Some i"
  shows "m k = Some i \<or> (n \<le> i \<and> i < n + length xs \<and> uid (xs ! (i - n)) = k)"
  using assms
proof (induction xs arbitrary: n m)
  case Nil
  then show ?case by simp
next
  case (Cons x xs)
  from Cons.prems have
    "fold (\<lambda>(idx, item) m. m(uid item \<mapsto> idx)) (enumerate (Suc n) xs) (m(uid x \<mapsto> n)) k = Some i"
    by (simp del: fun_upd_apply)
  from Cons.IH [OF this] show ?case
  proof
    assume "(m(uid x \<mapsto> n)) k = Some i"
    then show ?thesis by (auto split: if_splits)
  next
    assume a: "Suc n \<le> i \<and> i < Suc n + length xs \<and> uid (xs ! (i - Suc n)) = k"
    then have "i - n = Suc (i - Suc n)" by arith
    with a show ?thesis by simp
  qed
qed

lemma index_map_Some:
  assumes "index_map xs k = Some i"
  shows "i < length xs \<and> uid (xs ! i) = k"
  using fold_index_map [of 0 xs Map.empty k i] assms by (simp add: index_map_def)

lemma reschedule_item_uid: "uid (fst (snd (reschedule_item tz now item))) = uid item"
  by (simp add: reschedule_item_def Let_def split: sum.splits)

lemma reschedule_loop_uids:
  "map uid (fst (snd (reschedule_loop tz now xs))) = map uid xs"
proof (induction xs)
  case Nil
  then show ?case by simp
next
  case (Cons x xs)
  obtain e x' u where r: "reschedule_item tz now x = (e, x', u)" by (cases "reschedule_item tz now x")
  with reschedule_item_uid [of tz now x] have ux: "uid x' = uid x" by simp
  show ?case using Cons.IH ux r
    by (cases "reschedule_loop tz now xs") (auto split: option.splits)
qed


lemma uids_distinct_create:
  assumes "uids_distinct st" and "brings_new_uid st (Create item new_uid)"
  shows "uids_distinct (async_create_todo_item st item new_uid)"
proof (cases "create_replace item (todo_items st)")
  case None
  with assms show ?thesis
    by (auto simp add: async_create_todo_item_def uids_distinct_def Let_def)
next
  case (Some ys)
  with assms(1) create_replace_uids [OF Some] show ?thesis
    by (simp add: async_create_todo_item_def uids_distinct_def)
qed

lemma uids_distinct_update:
  assumes "uids_distinct st" and "brings_new_uid st (Update u)"
  shows "uids_distinct (async_update_todo_item st u)"
proof (cases "update_replace u (todo_items st)")
  case None
  with assms show ?thesis by (simp add: async_update_todo_item_def)
next
  case (Some ys)
  from assms have "distinct (map uid ys)"
    using update_replace_distinct [OF Some] by (simp add: uids_distinct_def)
  with Some show ?thesis by (simp add: async_update_todo_item_def uids_distinct_def)
qed

lemma uids_distinct_delete:
  assumes "uids_distinct st"
  shows "uids_distinct (async_delete_todo_items st uids)"
  using assms by (simp add: async_delete_todo_items_def uids_distinct_def distinct_map_filter)

lemma uids_distinct_move:
  assumes "uids_distinct st"
  shows "uids_distinct (snd (async_move_todo_item st u p))"
proof (cases "index_map (todo_items st) (Some u)")
  case None
  with assms show ?thesis by (simp add: async_move_todo_item_def)
next
  case (Some i)
  from index_map_Some [OF Some] have i: "i < length (todo_items st)" by simp
  from assms have d: "distinct (map uid (todo_items st))" by (simp add: uids_distinct_def)
  note m = distinct_uid_move [OF d i] distinct_uid_pop_at [OF d, of i]
  show ?thesis using Some m
    by (simp add: async_move_todo_item_def Let_def uids_distinct_def split: option.splits)
qed

lemma uids_distinct_reschedule:
  assumes "uids_distinct st"
  shows "uids_distinct (snd (async_update_requiring_items tz now st))"
proof -
  obtain e items u where r: "reschedule_loop tz now (todo_items st) = (e, items, u)"
    by (cases "reschedule_loop tz now (todo_items st)")
  with reschedule_loop_uids [of tz now "todo_items st"] have "map uid items = map uid (todo_items st)"
    by simp
  with assms r show ?thesis
    by (cases e) (simp_all add: async_update_requiring_items_def uids_distinct_def)
qed

lemma uids_distinct_apply_op:
  assumes "uids_distinct st" and "brings_new_uid st op"
  shows "uids_distinct (snd (apply_op st op))"
proof (cases op)
  case (Create item new_uid)
  with assms show ?thesis by (simp only: apply_op.simps snd_conv uids_distinct_create)
next
  case (Update u)
  with assms show ?thesis by (simp only: apply_op.simps snd_conv uids_distinct_update)
next
  case (Delete uids)
  with assms show ?thesis by (simp only: apply_op.simps snd_conv uids_distinct_delete)
next
  case (Move u p)
  with assms show ?thesis by (simp only: apply_op.simps uids_distinct_move)
next
  case (Reschedule tz now)
  with assms show ?thesis by (simp only: apply_op.simps uids_distinct_reschedule)
qed

lemma run_take_Suc:
  "run st (take (Suc n) (op # ops)) = run (snd (apply_op st op)) (take n ops)"
  by simp

text \<open>
  C8, as amended. When the uids of the list are pairwise distinct and every operation of a
  sequence brings no uid that is already in the list (a creation that appends, an update
  addressed by summary), then the uids are pairwise distinct after each operation of the
  sequence, whether it returned or raised.
\<close>

theorem uids_stay_distinct:
  assumes "uids_distinct st" and "all_bring_new_uids st ops"
  shows "uids_distinct (run st (take n ops))"
  using assms
proof (induction ops arbitrary: st n)
  case Nil
  then show ?case by simp
next
  case (Cons op ops)
  show ?case
  proof (cases n)
    case 0
    with Cons.prems show ?thesis by simp
  next
    case (Suc k)
    from Cons.prems have "uids_distinct (snd (apply_op st op))"
      and "all_bring_new_uids (snd (apply_op st op)) ops"
      by (simp_all add: uids_distinct_apply_op)
    from Cons.IH [OF this] Suc show ?thesis by simp
  qed
qed

lemma run_ops_w_3:
  "todo_items (run list_b (take 3 ops_w)) = [item_b, item_x\<lparr>uid := Some ''u1'', summary := ''Z''\<rparr>]"
  by (simp add: ops_w_def list_b_def async_create_todo_item_def async_update_todo_item_def
      async_move_todo_item_def index_map_def Let_def truthy_str_def item_x_simps summary_items
      uid_items due_key_item_b pop_at_def insert_at_def numeral_3_eq_3)

lemma all_bring_ops_w: "all_bring_new_uids list_b ops_w"
  by (simp add: ops_w_def list_b_def async_create_todo_item_def async_update_todo_item_def
      async_move_todo_item_def index_map_def Let_def truthy_str_def item_x_simps summary_items
      uid_items due_key_item_b pop_at_def insert_at_def)

text \<open>C8 as amended on the list \<open>[b]\<close>: after a creation, an update by uid and a
  move the uids are \<open>b\<close> and \<open>u1\<close>.\<close>

theorem uids_stay_distinct_witness:
  "uids_distinct list_b \<and> all_bring_new_uids list_b ops_w \<and>
   uids_distinct (run list_b (take 3 ops_w)) \<and>
   map uid (todo_items (run list_b (take 3 ops_w))) = [Some ''b'', Some ''u1'']"
proof -
  have a: "uids_distinct list_b" by (simp add: uids_distinct_def list_b_def)
  from uids_stay_distinct [OF a all_bring_ops_w, of 3] a all_bring_ops_w show ?thesis
    by (simp add: run_ops_w_3 uid_items)
qed

text \<open>C8 as stated fails: on the empty list, two creations of items that come with the
  uid \<open>x\<close> and different summaries leave two items with the uid \<open>x\<close>.\<close>

theorem create_twice_with_one_uid:
  "todo_items (new_MyTodoList ''L'' None) = [] \<and>
   map uid (todo_items (run (new_MyTodoList ''L'' None) ops_twice)) = [Some ''x'', Some ''x'']"
  by (simp add: ops_twice_def new_MyTodoList_def async_create_todo_item_def Let_def
      truthy_str_def item_x_simps)

subsection \<open>Calendar months\<close>










subsection \<open>Rescheduling the requiring items\<close>















subsection \<open>Periods of months and years\<close>




end
